theory Spec2Isabelle
  imports Main
begin

section \<open>JavaScript values\<close>

text \<open>
  Values that reach the checkout block from \<^verbatim>\<open>JSON.parse\<close> and from property
  access. Numbers are the integers among the doubles: the block only tests numbers for
  truthiness and prints them. An object is an association list; a lookup takes the
  first entry of a key.
\<close>

datatype jsval =
    JUndefined
  | JNull
  | JBool bool
  | JNum int
  | JStr string
  | JArr "jsval list"
  | JObj "(string \<times> jsval) list"

text \<open>A thrown exception: the error's name and its message.\<close>

datatype js_error = JsError (err_name: string) (err_message: string)

text \<open>Truthiness, as tested by \<^verbatim>\<open>!x\<close>, \<^verbatim>\<open>x || y\<close> and \<^verbatim>\<open>x ? a : b\<close>.\<close>

fun truthy :: "jsval \<Rightarrow> bool" where
  "truthy JUndefined = False"
| "truthy JNull = False"
| "truthy (JBool b) = b"
| "truthy (JNum n) = (n \<noteq> 0)"
| "truthy (JStr s) = (s \<noteq> [])"
| "truthy (JArr xs) = True"
| "truthy (JObj kvs) = True"

text \<open>\<^verbatim>\<open>a || b\<close>\<close>

definition js_or :: "jsval \<Rightarrow> jsval \<Rightarrow> jsval" where
  "js_or a b = (if truthy a then a else b)"

text \<open>
  \<^verbatim>\<open>a?.k\<close>: the own property of an object, \<^verbatim>\<open>undefined\<close> for a missing key and
  for every other value (none of the property names read by the block is defined on the
  prototypes of strings, numbers, booleans or arrays).
\<close>

fun oprop :: "jsval \<Rightarrow> string \<Rightarrow> jsval" where
  "oprop (JObj kvs) k = (case map_of kvs k of Some v \<Rightarrow> v | None \<Rightarrow> JUndefined)"
| "oprop v k = JUndefined"

text \<open>\<^verbatim>\<open>a.k\<close>: as \<^verbatim>\<open>a?.k\<close>, but a TypeError on \<^verbatim>\<open>null\<close> and \<^verbatim>\<open>undefined\<close>.\<close>

definition get_prop :: "jsval \<Rightarrow> string \<Rightarrow> js_error + jsval" where
  "get_prop a k =
     (if a = JNull \<or> a = JUndefined
      then Inl (JsError ''TypeError'' (''Cannot read properties of null or undefined, reading '' @ k))
      else Inr (oprop a k))"

subsection \<open>Strings\<close>

function show_nat :: "nat \<Rightarrow> string" where
  "show_nat n =
     (if n < 10 then [''0123456789'' ! n]
      else show_nat (n div 10) @ [''0123456789'' ! (n mod 10)])"
  by pat_completeness auto
termination
  by (relation "measure (\<lambda>n. n)") auto

declare show_nat.simps [simp del]

definition show_int :: "int \<Rightarrow> string" where
  "show_int i = (if i < 0 then ''-'' @ show_nat (nat (- i)) else show_nat (nat i))"

text \<open>
  \<^verbatim>\<open>Number.prototype.toString\<close> on an integer: plain decimal below \<^verbatim>\<open>1e21\<close>, and
  from there the exponent form, which is the platform's.
\<close>

definition number_toString :: "(int \<Rightarrow> string) \<Rightarrow> int \<Rightarrow> string" where
  "number_toString exponent_form n =
     (if \<bar>n\<bar> < 10 ^ 21 then show_int n else exponent_form n)"

text \<open>
  String conversion, as done by a template literal, by \<^verbatim>\<open>new Error(v)\<close> and by the
  setter of \<^verbatim>\<open>location.href\<close>. An object prints as \<^verbatim>\<open>[object Object]\<close>, unless it
  has a \<^verbatim>\<open>toString\<close> entry of its own: that entry is not a function, the inherited
  \<^verbatim>\<open>valueOf\<close> returns the object, and the conversion throws a TypeError. An array
  joins its elements with commas, \<^verbatim>\<open>null\<close> and \<^verbatim>\<open>undefined\<close> elements printing
  as the empty string; the first element that throws ends it.
\<close>

fun toStr :: "(int \<Rightarrow> string) \<Rightarrow> jsval \<Rightarrow> js_error + string"
  and toStr_elems :: "(int \<Rightarrow> string) \<Rightarrow> jsval list \<Rightarrow> js_error + string" where
  "toStr ef JUndefined = Inr ''undefined''"
| "toStr ef JNull = Inr ''null''"
| "toStr ef (JBool b) = Inr (if b then ''true'' else ''false'')"
| "toStr ef (JNum n) = Inr (number_toString ef n)"
| "toStr ef (JStr s) = Inr s"
| "toStr ef (JArr xs) = toStr_elems ef xs"
| "toStr ef (JObj kvs) =
     (if map_of kvs ''toString'' \<noteq> None
      then Inl (JsError ''TypeError'' ''Cannot convert object to primitive value'')
      else Inr ''[object Object]'')"
| "toStr_elems ef [] = Inr []"
| "toStr_elems ef (x # xs) =
     (case (case x of JNull \<Rightarrow> Inr [] | JUndefined \<Rightarrow> Inr [] | _ \<Rightarrow> toStr ef x) of
        Inl error \<Rightarrow> Inl error
      | Inr first \<Rightarrow>
          if xs = [] then Inr first
          else (case toStr_elems ef xs of
                  Inl error \<Rightarrow> Inl error
                | Inr rest \<Rightarrow> Inr (first @ '','' @ rest)))"

text \<open>\<^verbatim>\<open>String(error)\<close> for an Error object.\<close>

definition error_toString :: "js_error \<Rightarrow> string" where
  "error_toString e =
     (if err_message e = [] then err_name e
      else if err_name e = [] then err_message e
      else err_name e @ '': '' @ err_message e)"

text \<open>
  White space as \<^verbatim>\<open>\s\<close> and \<^verbatim>\<open>trim()\<close> see it, among the characters of one byte:
  TAB, LF, VT, FF, CR, SPACE and NBSP.
\<close>

definition is_space :: "char \<Rightarrow> bool" where
  "is_space c = (c \<in> set [CHR 0x09, CHR 0x0A, CHR 0x0B, CHR 0x0C, CHR 0x0D, CHR 0x20, CHR 0xA0])"

definition trim :: "string \<Rightarrow> string" where
  "trim s = rev (dropWhile is_space (rev (dropWhile is_space s)))"

section \<open>Persistent session store\<close>

text \<open>
  \<^verbatim>\<open>localStorage\<close>: a map from keys to strings. Every access throws when the store is
  blocked (a SecurityError), and \<^verbatim>\<open>setItem\<close> throws when the quota is exhausted.
\<close>

record local_storage =
  stored :: "string \<Rightarrow> string option"
  blocked :: bool
  full :: bool

definition getItem :: "local_storage \<Rightarrow> string \<Rightarrow> js_error + string option" where
  "getItem st k =
     (if blocked st then Inl (JsError ''SecurityError'' ''The operation is insecure.'')
      else Inr (stored st k))"

definition setItem :: "local_storage \<Rightarrow> string \<Rightarrow> string \<Rightarrow> js_error + local_storage" where
  "setItem st k v =
     (if blocked st then Inl (JsError ''SecurityError'' ''The operation is insecure.'')
      else if full st then Inl (JsError ''QuotaExceededError'' ''The quota has been exceeded.'')
      else Inr (st\<lparr>stored := (stored st)(k \<mapsto> v)\<rparr>))"

definition removeItem :: "local_storage \<Rightarrow> string \<Rightarrow> js_error + local_storage" where
  "removeItem st k =
     (if blocked st then Inl (JsError ''SecurityError'' ''The operation is insecure.'')
      else Inr (st\<lparr>stored := (stored st)(k := None)\<rparr>))"

definition CART_ID_STORAGE_KEY :: string where
  "CART_ID_STORAGE_KEY = ''cartId''"

definition GUEST_ADDRESS_STORAGE_KEY :: string where
  "GUEST_ADDRESS_STORAGE_KEY = ''guestAddress''"

text \<open>The display shape of a cart, as \<^verbatim>\<open>transformCartData\<close> builds it.\<close>

record money =
  currency :: jsval
  money_value :: jsval

record cart_item =
  item_uid :: jsval
  item_sku :: jsval
  item_name :: jsval
  item_quantity :: jsval
  item_price :: money
  item_rowTotal :: money
  item_image :: jsval
  item_imageLabel :: jsval
  item_urlKey :: jsval

record cart_prices =
  grandTotal :: money
  subtotalExcludingTax :: money

record cart =
  cart_id :: jsval
  totalQuantity :: jsval
  cart_items :: "cart_item list"
  prices :: cart_prices

text \<open>
  The platform the block runs on: the JSON library, the network and the rendering of the
  document. \<^verbatim>\<open>JSON.parse\<close> throws a SyntaxError or returns the value;
  \<^verbatim>\<open>fetch\<close> takes the URL and the request body; the status of a response is below
  65536, and prints in plain decimal. \<^verbatim>\<open>window.BASE_URL\<close> is a string when it is set.
  Assigning a string to \<^verbatim>\<open>location.href\<close> throws a SyntaxError when the string
  does not parse as a URL, and starts the navigation otherwise. Rendering the cart (the
  item list and the order summary, with \<^verbatim>\<open>Intl.NumberFormat\<close>) and filling the form
  from a saved address (with \<^verbatim>\<open>querySelector\<close>) either throw or succeed.
\<close>

record http_response =
  ok :: bool
  status :: nat
  statusText :: string
  body_text :: "js_error + string"

datatype fetch_result = Rejected js_error | Responded http_response

record platform =
  JSON_parse :: "string \<Rightarrow> js_error + jsval"
  JSON_stringify :: "jsval \<Rightarrow> string"
  exponent_form :: "int \<Rightarrow> string"
  window_BASE_URL :: "string option"
  fetch :: "string \<Rightarrow> string \<Rightarrow> fetch_result"
  assign_href :: "string \<Rightarrow> js_error option"
  render_cart :: "cart \<Rightarrow> js_error option"
  prefill_form :: "jsval \<Rightarrow> js_error option"

definition getCartId :: "local_storage \<Rightarrow> string option" where
  "getCartId st =
     (case getItem st CART_ID_STORAGE_KEY of
        Inl error \<Rightarrow> None
      | Inr v \<Rightarrow> v)"

definition getSavedAddress :: "platform \<Rightarrow> local_storage \<Rightarrow> jsval" where
  "getSavedAddress w st =
     (case getItem st GUEST_ADDRESS_STORAGE_KEY of
        Inl error \<Rightarrow> JNull
      | Inr None \<Rightarrow> JNull
      | Inr (Some saved) \<Rightarrow>
          if saved = [] then JNull
          else (case JSON_parse w saved of Inl error \<Rightarrow> JNull | Inr v \<Rightarrow> v))"

definition saveAddress :: "platform \<Rightarrow> jsval \<Rightarrow> local_storage \<Rightarrow> local_storage" where
  "saveAddress w address st =
     (case setItem st GUEST_ADDRESS_STORAGE_KEY (JSON_stringify w address) of
        Inl error \<Rightarrow> st
      | Inr st' \<Rightarrow> st')"

definition clearCartId :: "local_storage \<Rightarrow> local_storage" where
  "clearCartId st =
     (case removeItem st CART_ID_STORAGE_KEY of
        Inl error \<Rightarrow> st
      | Inr st' \<Rightarrow> st')"

section \<open>Form validator\<close>

record form_data =
  guestEmail :: string
  firstname :: string
  lastname :: string
  company :: string
  street :: string
  city :: string
  region :: string
  postcode :: string
  country_code :: string
  telephone :: string

text \<open>
  \<^verbatim>\<open>/^[^\s@]+@[^\s@]+\.[^\s@]+$/\<close>: the string splits at some \<^verbatim>\<open>@\<close> and at some later
  dot into three non-empty parts, none holding white space or \<^verbatim>\<open>@\<close>.
\<close>

definition plain_part :: "string \<Rightarrow> bool" where
  "plain_part s = (s \<noteq> [] \<and> list_all (\<lambda>c. \<not> is_space c \<and> c \<noteq> CHR ''@'') s)"

definition isValidEmail :: "string \<Rightarrow> bool" where
  "isValidEmail email =
     list_ex (\<lambda>i. list_ex (\<lambda>j.
         i < j \<and> email ! i = CHR ''@'' \<and> email ! j = CHR ''.''
         \<and> plain_part (take i email)
         \<and> plain_part (take (j - Suc i) (drop (Suc i) email))
         \<and> plain_part (drop (Suc j) email))
       [0..<length email]) [0..<length email]"

record validation =
  isValid :: bool
  errors :: "(string \<times> string) list"

text \<open>One \<^verbatim>\<open>if (!v || !v.trim()) errors.k = m\<close> statement.\<close>

definition required :: "string \<Rightarrow> string \<Rightarrow> string \<Rightarrow> (string \<times> string) list" where
  "required v k m = (if v = [] \<or> trim v = [] then [(k, m)] else [])"

definition validateForm :: "form_data \<Rightarrow> validation" where
  "validateForm formData =
     (let errors =
        (if guestEmail formData = [] \<or> trim (guestEmail formData) = []
         then [(''guestEmail'', ''Email is required'')]
         else if \<not> isValidEmail (guestEmail formData)
         then [(''guestEmail'', ''Please enter a valid email address'')]
         else [])
        @ required (firstname formData) ''firstname'' ''First name is required''
        @ required (lastname formData) ''lastname'' ''Last name is required''
        @ required (company formData) ''company'' ''Company name is required''
        @ required (street formData) ''street'' ''Street address is required''
        @ required (city formData) ''city'' ''City is required''
        @ required (region formData) ''region'' ''State/Region is required''
        @ required (postcode formData) ''postcode'' ''Postal code is required''
        @ required (country_code formData) ''country_code'' ''Country is required''
        @ required (telephone formData) ''telephone'' ''Phone number is required''
      in \<lparr>isValid = (length errors = 0), errors = errors\<rparr>)"

section \<open>Cart gateway\<close>

definition BASE_URL :: "platform \<Rightarrow> string" where
  "BASE_URL w =
     (case window_BASE_URL w of
        None \<Rightarrow> ''https://748062-appbuilderpoc-stage.adobeio-static.net/api/v1/web''
      | Some url \<Rightarrow>
          if url = [] then ''https://748062-appbuilderpoc-stage.adobeio-static.net/api/v1/web''
          else url)"

definition getCart :: "platform \<Rightarrow> jsval \<Rightarrow> jsval" where
  "getCart w cartId =
     (if \<not> truthy cartId then JNull
      else
        (case fetch w (BASE_URL w @ ''/poc-appbuilder-storefront/cart-get'')
                (JSON_stringify w (JObj [(''cartId'', cartId)])) of
           Rejected error \<Rightarrow> JNull
         | Responded response \<Rightarrow>
             if \<not> ok response then JNull
             else
               (case body_text response of
                  Inl error \<Rightarrow> JNull
                | Inr text \<Rightarrow>
                    (case JSON_parse w text of
                       Inl error \<Rightarrow> JNull
                     | Inr data \<Rightarrow> js_or (oprop data ''cart'') JNull))))"

text \<open>The price object \<^verbatim>\<open>{currency: p?.currency || 'USD', value: p?.value || 0}\<close>.\<close>

definition transform_money :: "jsval \<Rightarrow> money" where
  "transform_money p =
     \<lparr>currency = js_or (oprop p ''currency'') (JStr ''USD''),
      money_value = js_or (oprop p ''value'') (JNum 0)\<rparr>"

text \<open>The arrow function mapped over the items: \<^verbatim>\<open>item.uid\<close> throws on a null item.\<close>

definition transform_item :: "jsval \<Rightarrow> js_error + cart_item" where
  "transform_item item =
     (case get_prop item ''uid'' of
        Inl error \<Rightarrow> Inl error
      | Inr uid \<Rightarrow>
          Inr \<lparr>item_uid = uid,
               item_sku = js_or (oprop (oprop item ''product'') ''sku'') (JStr []),
               item_name = js_or (oprop (oprop item ''product'') ''name'') (JStr []),
               item_quantity = js_or (oprop item ''quantity'') (JNum 0),
               item_price = transform_money (oprop (oprop item ''prices'') ''price''),
               item_rowTotal = transform_money (oprop (oprop item ''prices'') ''row_total''),
               item_image =
                 js_or (oprop (oprop (oprop item ''product'') ''thumbnail'') ''url'') (JStr []),
               item_imageLabel =
                 js_or (oprop (oprop (oprop item ''product'') ''thumbnail'') ''label'') (JStr []),
               item_urlKey = js_or (oprop (oprop item ''product'') ''url_key'') (JStr [])\<rparr>)"

text \<open>\<^verbatim>\<open>Array.prototype.map\<close> with a callback that may throw: the first exception ends it.\<close>

fun map_throwing :: "('a \<Rightarrow> js_error + 'b) \<Rightarrow> 'a list \<Rightarrow> js_error + 'b list" where
  "map_throwing f [] = Inr []"
| "map_throwing f (x # xs) =
     (case f x of
        Inl error \<Rightarrow> Inl error
      | Inr y \<Rightarrow> (case map_throwing f xs of Inl error \<Rightarrow> Inl error | Inr ys \<Rightarrow> Inr (y # ys)))"

definition transformCartData :: "jsval \<Rightarrow> js_error + cart option" where
  "transformCartData apiCart =
     (if \<not> truthy apiCart then Inr None
      else
        (case js_or (oprop (oprop apiCart ''itemsV2'') ''items'') (JArr []) of
           JArr xs \<Rightarrow>
             (case map_throwing transform_item xs of
                Inl error \<Rightarrow> Inl error
              | Inr items \<Rightarrow>
                  Inr (Some
                    \<lparr>cart_id = oprop apiCart ''id'',
                     totalQuantity = js_or (oprop apiCart ''total_quantity'') (JNum 0),
                     cart_items = items,
                     prices =
                       \<lparr>grandTotal = transform_money (oprop (oprop apiCart ''prices'') ''grand_total''),
                        subtotalExcludingTax =
                          transform_money (oprop (oprop apiCart ''prices'') ''subtotal_excluding_tax'')\<rparr>\<rparr>))
         | other \<Rightarrow> Inl (JsError ''TypeError'' ''map is not a function'')))"

section \<open>Payment gateway adapter\<close>

text \<open>
  The block every adapter runs on a response that is not ok: the value given to the
  Error it throws. \<^verbatim>\<open>response.text()\<close> may reject, and that exception propagates;
  so does the TypeError of \<^verbatim>\<open>new Error(v)\<close> on a value with no string form.
\<close>

definition failure_message :: "platform \<Rightarrow> string \<Rightarrow> http_response \<Rightarrow> js_error + jsval" where
  "failure_message w what response =
     (case body_text response of
        Inl error \<Rightarrow> Inl error
      | Inr errorText \<Rightarrow>
          (let errorMessage =
                 JStr (what @ '': '' @ show_nat (status response) @ '' '' @ statusText response)
           in Inr (case JSON_parse w errorText of
                     Inr errorData \<Rightarrow>
                       js_or (oprop errorData ''message'') (js_or (oprop errorData ''error'') errorMessage)
                   | Inl error \<Rightarrow> if errorText \<noteq> [] then JStr errorText else errorMessage)))"

text \<open>
  The body shared by the four adapters: one POST of the JSON payload; a rejected fetch
  and a failing \<^verbatim>\<open>response.json()\<close> are logged and thrown again as they are.
\<close>

definition post_json :: "platform \<Rightarrow> string \<Rightarrow> jsval \<Rightarrow> string \<Rightarrow> js_error + jsval" where
  "post_json w endpoint payload what =
     (case fetch w (BASE_URL w @ endpoint) (JSON_stringify w payload) of
        Rejected error \<Rightarrow> Inl error
      | Responded response \<Rightarrow>
          if \<not> ok response then
            (case failure_message w what response of
               Inl error \<Rightarrow> Inl error
             | Inr errorMessage \<Rightarrow>
                 (case toStr (exponent_form w) errorMessage of
                    Inl error \<Rightarrow> Inl error
                  | Inr message \<Rightarrow> Inl (JsError ''Error'' message)))
          else
            (case body_text response of
               Inl error \<Rightarrow> Inl error
             | Inr text \<Rightarrow> JSON_parse w text))"

definition prepareCheckout :: "platform \<Rightarrow> jsval \<Rightarrow> js_error + jsval" where
  "prepareCheckout w checkoutData =
     (case post_json w ''/poc-appbuilder-storefront/checkout-prepare'' checkoutData
             ''Failed to prepare checkout'' of
        Inl error \<Rightarrow> Inl error
      | Inr data \<Rightarrow> Inr (js_or (oprop data ''cart'') JNull))"

record location =
  hostname :: string
  protocol :: string
  origin :: string
  pathname :: string
  search_token :: "string option"

definition returnUrl :: "location \<Rightarrow> string" where
  "returnUrl loc =
     (if hostname loc = ''localhost'' \<or> hostname loc = ''127.0.0.1''
      then protocol loc @ ''//localhost:3000'' @ pathname loc
      else origin loc @ pathname loc)"

definition createPayPalOrder ::
  "platform \<Rightarrow> location \<Rightarrow> jsval \<Rightarrow> jsval \<Rightarrow> jsval \<Rightarrow> js_error + jsval" where
  "createPayPalOrder w loc cartId amount items =
     (case post_json w ''/poc-appbuilder-storefront/paypal-order-create''
             (JObj [(''cartId'', cartId), (''amount'', amount), (''items'', items),
                    (''returnUrl'', JStr (returnUrl loc))])
             ''Failed to create PayPal order'' of
        Inl error \<Rightarrow> Inl error
      | Inr data \<Rightarrow> Inr (js_or data JNull))"

definition capturePayPalOrder :: "platform \<Rightarrow> string \<Rightarrow> js_error + jsval" where
  "capturePayPalOrder w paypalOrderId =
     (case post_json w ''/poc-appbuilder-storefront/paypal-order-capture''
             (JObj [(''paypalOrderId'', JStr paypalOrderId)])
             ''Failed to capture PayPal payment'' of
        Inl error \<Rightarrow> Inl error
      | Inr data \<Rightarrow> Inr (js_or data JNull))"

definition placeOrder :: "platform \<Rightarrow> string \<Rightarrow> js_error + jsval" where
  "placeOrder w cartId =
     (case post_json w ''/poc-appbuilder-storefront/checkout-place-order''
             (JObj [(''cartId'', JStr cartId)])
             ''Failed to place order'' of
        Inl error \<Rightarrow> Inl error
      | Inr data \<Rightarrow> Inr (js_or data JNull))"

section \<open>Checkout orchestrator\<close>

text \<open>
  The state that \<^verbatim>\<open>decorate\<close> closes over: the window's location, the session store,
  the two containers (\<^verbatim>\<open>$wrapper\<close> with the form and the button, \<^verbatim>\<open>$empty\<close> with
  one of five contents), the notification, the field errors on display, the button and
  the cart. Label texts from the placeholders and the timed removal of the notification
  are left out.
\<close>

datatype button_text = PlaceOrderText | PlacingOrderText

datatype view =
    CartEmptyView
  | ProcessingPaymentView
  | PlacingOrderView
  | SuccessView string
  | PaymentErrorView string

record page =
  window_location :: location
  localStorage :: local_storage
  wrapper_display :: string
  empty_display :: string
  empty_innerHTML :: view
  currentNotification :: "(string \<times> string) option"
  displayed_errors :: "(string \<times> string) list"
  placeOrderBtn_disabled :: bool
  placeOrderBtn_text :: button_text
  currentCartData :: "cart option"
  rendered_cart :: "cart option"
  prefilled_address :: "jsval option"
  location_href :: "string option"

text \<open>The calls a handler makes to the cart gateway and to the payment adapter, in order.\<close>

datatype adapter_call =
    GetCart string
  | PrepareCheckout jsval
  | CreatePayPalOrder jsval jsval jsval
  | CapturePayPalOrder string
  | PlaceOrder string

definition showNotification :: "string \<Rightarrow> string \<Rightarrow> page \<Rightarrow> page" where
  "showNotification message type page = page\<lparr>currentNotification := Some (message, type)\<rparr>"

definition displayErrors :: "(string \<times> string) list \<Rightarrow> page \<Rightarrow> page" where
  "displayErrors errs page = page\<lparr>displayed_errors := errs\<rparr>"

subsection \<open>loadCart\<close>

definition show_empty :: "page \<Rightarrow> page" where
  "show_empty page = page\<lparr>wrapper_display := ''none'', empty_display := ''block''\<rparr>"

text \<open>The \<^verbatim>\<open>catch\<close> block of \<^verbatim>\<open>loadCart\<close>.\<close>

definition load_failed :: "page \<Rightarrow> page" where
  "load_failed page = show_empty (showNotification ''Failed to load cart'' ''error'' page)"

text \<open>The branch on \<^verbatim>\<open>currentCartData\<close> inside the \<^verbatim>\<open>try\<close> block.\<close>

definition load_render :: "platform \<Rightarrow> page \<Rightarrow> page" where
  "load_render w page =
     (case currentCartData page of
        None \<Rightarrow> show_empty page
      | Some cart \<Rightarrow>
          if length (cart_items cart) > 0 then
            (case render_cart w cart of
               Some error \<Rightarrow> load_failed page
             | None \<Rightarrow>
                 (let page1 = page\<lparr>rendered_cart := Some cart,
                                   wrapper_display := [], empty_display := ''none''\<rparr>;
                      savedAddress = getSavedAddress w (localStorage page1)
                  in if truthy savedAddress then
                       (case prefill_form w savedAddress of
                          Some error \<Rightarrow> load_failed page1
                        | None \<Rightarrow> page1\<lparr>prefilled_address := Some savedAddress\<rparr>)
                     else page1))
          else show_empty page)"

definition loadCart :: "platform \<Rightarrow> page \<Rightarrow> page \<times> adapter_call list" where
  "loadCart w page =
     (case getCartId (localStorage page) of
        None \<Rightarrow> (show_empty page, [])
      | Some cartId \<Rightarrow>
          if cartId = [] then (show_empty page, [])
          else
            (case transformCartData (getCart w (JStr cartId)) of
               Inl error \<Rightarrow> (load_failed page, [GetCart cartId])
             | Inr data \<Rightarrow> (load_render w (page\<lparr>currentCartData := data\<rparr>), [GetCart cartId])))"

subsection \<open>handlePlaceOrder\<close>

text \<open>\<^verbatim>\<open>formData.get(k)?.trim() || ''\<close> for each of the ten fields of the form.\<close>

definition trimmed :: "form_data \<Rightarrow> form_data" where
  "trimmed form =
     \<lparr>guestEmail = trim (guestEmail form),
      firstname = trim (firstname form),
      lastname = trim (lastname form),
      company = trim (company form),
      street = trim (street form),
      city = trim (city form),
      region = trim (region form),
      postcode = trim (postcode form),
      country_code = trim (country_code form),
      telephone = trim (telephone form)\<rparr>"

definition addressToSave :: "form_data \<Rightarrow> jsval" where
  "addressToSave data =
     JObj [(''guestEmail'', JStr (guestEmail data)),
           (''firstname'', JStr (firstname data)),
           (''lastname'', JStr (lastname data)),
           (''company'', JStr (company data)),
           (''street'', JStr (street data)),
           (''city'', JStr (city data)),
           (''region'', JStr (region data)),
           (''postcode'', JStr (postcode data)),
           (''country_code'', JStr (country_code data)),
           (''telephone'', JStr (telephone data))]"

definition checkoutData :: "string \<Rightarrow> form_data \<Rightarrow> jsval" where
  "checkoutData cartId data =
     JObj [(''cartId'', JStr cartId),
           (''guestEmail'', JStr (guestEmail data)),
           (''shippingAddress'',
              JObj [(''vat_id'', JStr []),
                    (''city'', JStr (city data)),
                    (''custom_attributes'', JArr []),
                    (''company'', js_or (JStr (company data)) (JStr [])),
                    (''country_code'', JStr (country_code data)),
                    (''firstname'', JStr (firstname data)),
                    (''lastname'', JStr (lastname data)),
                    (''postcode'', JStr (postcode data)),
                    (''region'', JStr ''CA''),
                    (''region_id'', JNum 12),
                    (''street'', JArr [JStr (street data), JStr []]),
                    (''telephone'', JStr (telephone data))]),
           (''shippingMethod'',
              JObj [(''carrier_code'', JStr ''flatrate''), (''method_code'', JStr ''flatrate'')]),
           (''paymentMethod'', JObj [(''code'', JStr ''checkmo'')])]"

text \<open>A value read by \<^verbatim>\<open>getCartId\<close>, passed on as an argument.\<close>

definition cartId_value :: "string option \<Rightarrow> jsval" where
  "cartId_value c = (case c of None \<Rightarrow> JNull | Some s \<Rightarrow> JStr s)"

text \<open>
  The \<^verbatim>\<open>try\<close> block after the button is disabled, up to the redirect: the
  exception thrown, or the approval URL to redirect to; and the adapter calls made.
\<close>

definition place_order_steps ::
  "platform \<Rightarrow> jsval \<Rightarrow> page \<Rightarrow> (js_error + jsval) \<times> adapter_call list" where
  "place_order_steps w request page =
     (case prepareCheckout w request of
        Inl error \<Rightarrow> (Inl error, [PrepareCheckout request])
      | Inr checkoutResult \<Rightarrow>
          if \<not> truthy checkoutResult then
            (Inl (JsError ''Error'' ''Failed to prepare checkout''), [PrepareCheckout request])
          else
            (let cartId = cartId_value (getCartId (localStorage page)) in
             case currentCartData page of
               None \<Rightarrow>
                 (Inl (JsError ''TypeError'' ''Cannot read properties of null, reading prices''),
                  [PrepareCheckout request])
             | Some cart \<Rightarrow>
                 (let amount = JObj [(''value'', money_value (grandTotal (prices cart))),
                                     (''currency_code'', currency (grandTotal (prices cart)))];
                      calls = [PrepareCheckout request, CreatePayPalOrder cartId amount (JArr [])]
                  in case createPayPalOrder w (window_location page) cartId amount (JArr []) of
                       Inl error \<Rightarrow> (Inl error, calls)
                     | Inr paypalResult \<Rightarrow>
                         if \<not> truthy paypalResult \<or> \<not> truthy (oprop paypalResult ''approvalUrl'')
                         then (Inl (JsError ''Error'' ''Failed to create PayPal order''), calls)
                         else (Inr (oprop paypalResult ''approvalUrl''), calls))))"

text \<open>The \<^verbatim>\<open>catch\<close> block of \<^verbatim>\<open>handlePlaceOrder\<close>.\<close>

definition submit_failed :: "js_error \<Rightarrow> page \<Rightarrow> page" where
  "submit_failed error page =
     (showNotification
        (if err_message error \<noteq> [] then err_message error else ''Failed to place order'')
        ''error'' page)
       \<lparr>placeOrderBtn_disabled := False, placeOrderBtn_text := PlaceOrderText\<rparr>"

text \<open>
  The handler. Assigning the approval URL to \<^verbatim>\<open>location.href\<close> converts it to a
  string and parses it as a URL; either may throw, and the notification of the redirect
  is on display by then.
\<close>

definition handlePlaceOrder :: "platform \<Rightarrow> form_data \<Rightarrow> page \<Rightarrow> page \<times> adapter_call list" where
  "handlePlaceOrder w form page =
     (case getCartId (localStorage page) of
        None \<Rightarrow> (showNotification ''Cart not found'' ''error'' page, [])
      | Some cartId \<Rightarrow>
          if cartId = [] then (showNotification ''Cart not found'' ''error'' page, [])
          else
            (let data = trimmed form;
                 validation = validateForm data
             in if \<not> isValid validation then
                  (showNotification ''Please fill in all required fields'' ''error''
                     (displayErrors (errors validation) page), [])
                else
                  (let page1 = page\<lparr>localStorage :=
                                      saveAddress w (addressToSave data) (localStorage page)\<rparr>;
                       page2 = page1\<lparr>placeOrderBtn_disabled := True,
                                     placeOrderBtn_text := PlacingOrderText\<rparr>
                   in case place_order_steps w (checkoutData cartId data) page2 of
                        (Inr approvalUrl, calls) \<Rightarrow>
                          (let page3 = showNotification ''Redirecting to PayPal...'' ''info'' page2
                           in case toStr (exponent_form w) approvalUrl of
                                Inl error \<Rightarrow> (submit_failed error page3, calls)
                              | Inr href \<Rightarrow>
                                  (case assign_href w href of
                                     Some error \<Rightarrow> (submit_failed error page3, calls)
                                   | None \<Rightarrow> (page3\<lparr>location_href := Some href\<rparr>, calls)))
                      | (Inl error, calls) \<Rightarrow> (submit_failed error page2, calls))))"

subsection \<open>handlePayPalReturn\<close>

text \<open>
  The \<^verbatim>\<open>try\<close> block: the exception thrown, or the result of placing the order; the
  page as the block left it; and the adapter calls made.
\<close>

definition paypal_return_steps ::
  "platform \<Rightarrow> string \<Rightarrow> page \<Rightarrow> (js_error + jsval) \<times> page \<times> adapter_call list" where
  "paypal_return_steps w token page =
     (case capturePayPalOrder w token of
        Inl captureError \<Rightarrow>
          (Inl (JsError ''Error'' (''Failed to capture payment: '' @
                  (if err_message captureError \<noteq> [] then err_message captureError
                   else error_toString captureError))),
           page, [CapturePayPalOrder token])
      | Inr captureResult \<Rightarrow>
          if \<not> truthy captureResult then
            (Inl (JsError ''Error'' ''Payment capture returned no result''),
             page, [CapturePayPalOrder token])
          else if oprop captureResult ''status'' \<noteq> JStr ''SUCCESS'' then
            (case toStr (exponent_form w)
                    (js_or (oprop captureResult ''status'')
                       (js_or (oprop captureResult ''status'') (JStr ''unknown''))) of
               Inl error \<Rightarrow> (Inl error, page, [CapturePayPalOrder token])
             | Inr statusMsg \<Rightarrow>
                 (Inl (JsError ''Error''
                    (''Payment capture was not completed successfully. Status: '' @ statusMsg)),
                  page, [CapturePayPalOrder token]))
          else
            (case getCartId (localStorage page) of
               None \<Rightarrow> (Inl (JsError ''Error'' ''Cart not found''), page, [CapturePayPalOrder token])
             | Some cartId \<Rightarrow>
                 if cartId = [] then
                   (Inl (JsError ''Error'' ''Cart not found''), page, [CapturePayPalOrder token])
                 else
                   (let page1 = page\<lparr>empty_innerHTML := PlacingOrderView\<rparr>;
                        calls = [CapturePayPalOrder token, PlaceOrder cartId]
                    in case placeOrder w cartId of
                         Inl orderError \<Rightarrow>
                           (Inl (JsError ''Error'' (''Failed to place order: '' @
                                   (if err_message orderError \<noteq> [] then err_message orderError
                                    else error_toString orderError))),
                            page1, calls)
                       | Inr orderResult \<Rightarrow>
                           if \<not> truthy orderResult \<or> \<not> truthy (oprop orderResult ''order'')
                           then (Inl (JsError ''Error'' ''Failed to place order''), page1, calls)
                           else (Inr orderResult,
                                 page1\<lparr>localStorage := clearCartId (localStorage page1)\<rparr>,
                                 calls))))"

text \<open>
  The order number printed in the success view; building the view throws when the number
  has no string form.
\<close>

definition shown_order_number :: "platform \<Rightarrow> jsval \<Rightarrow> js_error + string" where
  "shown_order_number w orderResult =
     toStr (exponent_form w)
       (js_or (oprop orderResult ''orderNumber'')
          (js_or (oprop (oprop (oprop orderResult ''order'') ''order'') ''number'') (JStr [])))"

text \<open>The \<^verbatim>\<open>catch\<close> block of \<^verbatim>\<open>handlePayPalReturn\<close>.\<close>

definition return_failed :: "js_error \<Rightarrow> page \<Rightarrow> page" where
  "return_failed error page =
     page\<lparr>empty_innerHTML := PaymentErrorView
       (if err_message error \<noteq> [] then err_message error
        else ''An error occurred while processing your payment. Please try again.'')\<rparr>"

definition handlePayPalReturn :: "platform \<Rightarrow> page \<Rightarrow> bool \<times> page \<times> adapter_call list" where
  "handlePayPalReturn w page =
     (case search_token (window_location page) of
        None \<Rightarrow> (False, page, [])
      | Some token \<Rightarrow>
          if token = [] then (False, page, [])
          else
            (let page0 = page\<lparr>wrapper_display := ''none'', empty_display := ''block'',
                              empty_innerHTML := ProcessingPaymentView\<rparr>
             in case paypal_return_steps w token page0 of
                  (Inr orderResult, page1, calls) \<Rightarrow>
                    (case shown_order_number w orderResult of
                       Inr number \<Rightarrow> (True, page1\<lparr>empty_innerHTML := SuccessView number\<rparr>, calls)
                     | Inl error \<Rightarrow> (False, return_failed error page1, calls))
                | (Inl error, page1, calls) \<Rightarrow> (False, return_failed error page1, calls)))"

text \<open>Whether the content of \<^verbatim>\<open>$empty\<close> is the payment error.\<close>

fun is_error_view :: "view \<Rightarrow> bool" where
  "is_error_view (PaymentErrorView m) = True"
| "is_error_view v = False"


subsection \<open>decorate\<close>

definition initial_page :: "location \<Rightarrow> local_storage \<Rightarrow> page" where
  "initial_page loc st =
     \<lparr>window_location = loc, localStorage = st,
      wrapper_display = [], empty_display = ''none'', empty_innerHTML = CartEmptyView,
      currentNotification = None, displayed_errors = [],
      placeOrderBtn_disabled = False, placeOrderBtn_text = PlaceOrderText,
      currentCartData = None, rendered_cart = None, prefilled_address = None,
      location_href = None\<rparr>"

text \<open>
  The block's entry point, after the layout is built. Neither handler lets an exception
  of the operations above escape, so the \<^verbatim>\<open>catch\<close> around the return handler has
  no branch here.
\<close>

definition decorate :: "platform \<Rightarrow> location \<Rightarrow> local_storage \<Rightarrow> page \<times> adapter_call list" where
  "decorate w loc st =
     (let page = initial_page loc st;
          isPayPalReturn = (case search_token loc of None \<Rightarrow> False | Some t \<Rightarrow> t \<noteq> [])
      in if isPayPalReturn then
           (case handlePayPalReturn w page of
              (paypalReturnSuccess, page1, calls) \<Rightarrow>
                if \<not> paypalReturnSuccess then
                  (case loadCart w page1 of (page2, calls2) \<Rightarrow> (page2, calls @ calls2))
                else (page1, calls))
         else loadCart w page)"

section \<open>The JSON text of an object of strings\<close>

text \<open>
  The session store holds the guest address as JSON text. This is what
  \<^verbatim>\<open>JSON.stringify\<close> prints for an object whose values are strings, after
  QuoteJSONString and SerializeJSONObject of ECMAScript, with no indentation: the
  entries in the order of creation, for keys that are not array indices. A character
  is one byte.
\<close>

definition hex_digit :: "nat \<Rightarrow> char" where
  "hex_digit n = ''0123456789abcdef'' ! n"

definition quote_char :: "char \<Rightarrow> string" where
  "quote_char c =
     (if c = CHR 0x22 then [CHR 0x5C, CHR 0x22]
      else if c = CHR 0x5C then [CHR 0x5C, CHR 0x5C]
      else if c = CHR 0x08 then [CHR 0x5C, CHR ''b'']
      else if c = CHR 0x0C then [CHR 0x5C, CHR ''f'']
      else if c = CHR 0x0A then [CHR 0x5C, CHR ''n'']
      else if c = CHR 0x0D then [CHR 0x5C, CHR ''r'']
      else if c = CHR 0x09 then [CHR 0x5C, CHR ''t'']
      else if (of_char c :: nat) < 0x20 then
        [CHR 0x5C, CHR ''u'', CHR ''0'', CHR ''0'',
         hex_digit (of_char c div 16), hex_digit (of_char c mod 16)]
      else [c])"

definition QuoteJSONString :: "string \<Rightarrow> string" where
  "QuoteJSONString s = CHR 0x22 # concat (map quote_char s) @ [CHR 0x22]"

fun members :: "(string \<times> string) list \<Rightarrow> string" where
  "members [] = []"
| "members [(k, v)] = QuoteJSONString k @ '':'' @ QuoteJSONString v"
| "members ((k, v) # rest) = QuoteJSONString k @ '':'' @ QuoteJSONString v @ '','' @ members rest"

definition stringify_strings :: "(string \<times> string) list \<Rightarrow> string" where
  "stringify_strings kvs = ''{'' @ members kvs @ ''}''"












text \<open>The entries of an object of strings.\<close>

fun string_entry :: "string \<times> jsval \<Rightarrow> (string \<times> string) option" where
  "string_entry (k, JStr v) = Some (k, v)"
| "string_entry (k, v) = None"

definition string_entries :: "jsval \<Rightarrow> (string \<times> string) list option" where
  "string_entries v = (case v of JObj kvs \<Rightarrow> those (map string_entry kvs) | _ \<Rightarrow> None)"

section \<open>A concrete platform\<close>

text \<open>
  A platform to run the block on: \<^verbatim>\<open>JSON.parse\<close> is a table over the few
  response bodies that occur, \<^verbatim>\<open>JSON.stringify\<close> prints objects of strings, the
  server answers by URL, and navigation and rendering succeed. No number from
  \<^verbatim>\<open>1e21\<close> occurs in what it parses, so its exponent form is never asked for.
\<close>

definition demo_data :: form_data where
  "demo_data =
     \<lparr>guestEmail = ''ann@example.com'', firstname = ''Ann'', lastname = ''Lee'',
      company = ''Acme'', street = ''1 Main St'', city = ''Reno'', region = ''NV'',
      postcode = ''89501'', country_code = ''US'', telephone = ''5550100''\<rparr>"

definition demo_cart_json :: jsval where
  "demo_cart_json =
     JObj [(''id'', JStr ''cart-1''), (''total_quantity'', JNum 1),
           (''itemsV2'', JObj [(''items'',
              JArr [JObj [(''uid'', JStr ''u1''), (''quantity'', JNum 1),
                          (''product'', JObj [(''sku'', JStr ''sku-1''), (''name'', JStr ''Mug'')])]])]),
           (''prices'', JObj [(''grand_total'',
              JObj [(''currency'', JStr ''USD''), (''value'', JNum 50)])])]"

definition demo_texts :: "(string \<times> jsval) list" where
  \<open>demo_texts =
     [(''{"status":"SUCCESS"}'', JObj [(''status'', JStr ''SUCCESS'')]),
      (''{"status":"FAILED"}'', JObj [(''status'', JStr ''FAILED'')]),
      (''{"order":{"number":"000000123"}}'',
         JObj [(''order'', JObj [(''number'', JStr ''000000123'')])]),
      (''{"order":{"order":{"number":"000000123"}}}'',
         JObj [(''order'', JObj [(''order'', JObj [(''number'', JStr ''000000123'')])])]),
      (''{"order":{},"orderNumber":{"toString":0}}'',
         JObj [(''order'', JObj []), (''orderNumber'', JObj [(''toString'', JNum 0)])]),
      (''{}'', JObj []),
      (''{"message":"Cart is not shippable"}'', JObj [(''message'', JStr ''Cart is not shippable'')]),
      (''{"error":"Amount mismatch"}'', JObj [(''error'', JStr ''Amount mismatch'')]),
      (''{"message":{"toString":0}}'', JObj [(''message'', JObj [(''toString'', JNum 0)])]),
      (''{"cart":{}}'', JObj [(''cart'', JObj [])]),
      (''{"cart":...}'', JObj [(''cart'', demo_cart_json)]),
      (''{"approvalUrl":"https://pay.example/approve?X"}'',
         JObj [(''approvalUrl'', JStr ''https://pay.example/approve?X'')])]\<close>

definition demo_parse :: "string \<Rightarrow> js_error + jsval" where
  "demo_parse text =
     (case map_of demo_texts text of
        Some v \<Rightarrow> Inr v
      | None \<Rightarrow> Inl (JsError ''SyntaxError'' ''Unexpected token''))"

definition demo_stringify :: "jsval \<Rightarrow> string" where
  "demo_stringify v =
     (case string_entries v of Some kvs \<Rightarrow> stringify_strings kvs | None \<Rightarrow> ''{...}'')"

definition json_response :: "string \<Rightarrow> fetch_result" where
  "json_response text = Responded \<lparr>ok = True, status = 200, statusText = ''OK'', body_text = Inr text\<rparr>"

definition error_response :: "nat \<Rightarrow> string \<Rightarrow> string \<Rightarrow> fetch_result" where
  "error_response code reason text =
     Responded \<lparr>ok = False, status = code, statusText = reason, body_text = Inr text\<rparr>"

definition demo_platform :: "(string \<times> fetch_result) list \<Rightarrow> platform" where
  "demo_platform server =
     \<lparr>JSON_parse = demo_parse, JSON_stringify = demo_stringify,
      exponent_form = show_int, window_BASE_URL = Some ''https://api.example'',
      fetch = (\<lambda>url body. case map_of server url of
                 Some r \<Rightarrow> r
               | None \<Rightarrow> Rejected (JsError ''TypeError'' ''Failed to fetch'')),
      assign_href = (\<lambda>href. None),
      render_cart = (\<lambda>c. None), prefill_form = (\<lambda>a. None)\<rparr>"



definition demo_storage :: "string option \<Rightarrow> local_storage" where
  "demo_storage c = \<lparr>stored = (\<lambda>k. if k = ''cartId'' then c else None), blocked = False, full = False\<rparr>"

definition demo_location :: "string option \<Rightarrow> location" where
  "demo_location t =
     \<lparr>hostname = ''shop.example'', protocol = ''https:'', origin = ''https://shop.example'',
      pathname = ''/checkout'', search_token = t\<rparr>"

text \<open>
  A server for the return from the payment site: it answers the capture and the
  place-order calls with the two given bodies.
\<close>

definition resume_server :: "string \<Rightarrow> string \<Rightarrow> (string \<times> fetch_result) list" where
  "resume_server capture_text order_text =
     [(''https://api.example/poc-appbuilder-storefront/paypal-order-capture'',
       json_response capture_text),
      (''https://api.example/poc-appbuilder-storefront/checkout-place-order'',
       json_response order_text)]"

definition demo_page :: "string option \<Rightarrow> string option \<Rightarrow> page" where
  "demo_page token cartId = initial_page (demo_location token) (demo_storage cartId)"

text \<open>
  The cart that \<^verbatim>\<open>transformCartData\<close> builds from the demo cart, and a page on
  which that cart is loaded and the form can be submitted.
\<close>

definition demo_cart :: cart where
  "demo_cart =
     \<lparr>cart_id = JStr ''cart-1'', totalQuantity = JNum 1,
      cart_items =
        [\<lparr>item_uid = JStr ''u1'', item_sku = JStr ''sku-1'', item_name = JStr ''Mug'',
          item_quantity = JNum 1,
          item_price = \<lparr>currency = JStr ''USD'', money_value = JNum 0\<rparr>,
          item_rowTotal = \<lparr>currency = JStr ''USD'', money_value = JNum 0\<rparr>,
          item_image = JStr [], item_imageLabel = JStr [], item_urlKey = JStr []\<rparr>],
      prices = \<lparr>grandTotal = \<lparr>currency = JStr ''USD'', money_value = JNum 50\<rparr>,
                subtotalExcludingTax = \<lparr>currency = JStr ''USD'', money_value = JNum 0\<rparr>\<rparr>\<rparr>"

definition submit_page :: page where
  "submit_page = (demo_page None (Some ''cart-1''))\<lparr>currentCartData := Some demo_cart\<rparr>"





section \<open>The message contract as the specification words it\<close>


section \<open>Properties of the session store\<close>

lemma getCartId_saveAddress: "getCartId (saveAddress w a st) = getCartId st"
  by (simp add: getCartId_def saveAddress_def getItem_def setItem_def
      CART_ID_STORAGE_KEY_def GUEST_ADDRESS_STORAGE_KEY_def)















section \<open>Properties of the form validator\<close>

text \<open>
  The executable \<^verbatim>\<open>isValidEmail\<close> accepts the strings the regular expression
  matches: a part, an at sign, a part, a dot and a part, the parts not empty and free of
  white space and at signs.
\<close>

lemma isValidEmail_iff:
  "isValidEmail e \<longleftrightarrow>
     (\<exists>a b c. e = a @ ''@'' @ b @ ''.'' @ c \<and> plain_part a \<and> plain_part b \<and> plain_part c)"
proof
  assume "isValidEmail e"
  then obtain i j where ij: "i < j" "j < length e" "e ! i = CHR ''@''" "e ! j = CHR ''.''"
    "plain_part (take i e)" "plain_part (take (j - Suc i) (drop (Suc i) e))"
    "plain_part (drop (Suc j) e)"
    by (auto simp: isValidEmail_def list_ex_iff)
  have "e = take i e @ e ! i # drop (Suc i) e"
    using ij(1,2) by (simp add: id_take_nth_drop)
  moreover have "drop (Suc i) e = take (j - Suc i) (drop (Suc i) e) @ e ! j # drop (Suc j) e"
    using ij(1,2) id_take_nth_drop [of "j - Suc i" "drop (Suc i) e"] by simp
  ultimately have "e = take i e @ ''@'' @ take (j - Suc i) (drop (Suc i) e) @ ''.'' @ drop (Suc j) e"
    using ij(3,4) by simp
  with ij(5,6,7) show "\<exists>a b c. e = a @ ''@'' @ b @ ''.'' @ c \<and> plain_part a \<and> plain_part b \<and> plain_part c"
    by blast
next
  assume "\<exists>a b c. e = a @ ''@'' @ b @ ''.'' @ c \<and> plain_part a \<and> plain_part b \<and> plain_part c"
  then obtain a b c where e: "e = a @ ''@'' @ b @ ''.'' @ c"
    and p: "plain_part a" "plain_part b" "plain_part c"
    by blast
  let ?i = "length a" and ?j = "length a + Suc (length b)"
  have "?i < ?j" "?j < length e" "?i < length e" using e by simp_all
  moreover have "e ! ?i = CHR ''@''" using e by simp
  moreover have "e ! ?j = CHR ''.''" using e by (simp add: nth_append)
  moreover have "take ?i e = a" using e by simp
  moreover have "take (?j - Suc ?i) (drop (Suc ?i) e) = b" using e by simp
  moreover have "drop (Suc ?j) e = c" using e by simp
  ultimately show "isValidEmail e"
    unfolding isValidEmail_def list_ex_iff using p
    by (intro bexI [of _ ?i] bexI [of _ ?j]) auto
qed

lemma trim_Nil: "trim [] = []"
  by (simp add: trim_def)

lemma empty_or_blank: "(v = [] \<or> trim v = []) = (trim v = [])"
  by (auto simp: trim_Nil)

lemma map_of_required:
  "map_of (required v k m) k' = (if k' = k \<and> trim v = [] then Some m else None)"
  by (simp add: required_def empty_or_blank)

lemma map_of_required_append:
  "map_of (required v k m @ rest) k' =
     (if k' = k \<and> trim v = [] then Some m else map_of rest k')"
  by (simp add: required_def empty_or_blank)

lemma map_of_two_rules_append:
  "map_of ((if c1 then [(k, m1)] else if c2 then [(k, m2)] else []) @ rest) k' =
     (if k' = k \<and> c1 then Some m1 else if k' = k \<and> c2 then Some m2 else map_of rest k')"
  by simp

lemma keys_required:
  "distinct (map fst (required v k m)) \<and> fst ` set (required v k m) \<subseteq> {k}"
  by (simp add: required_def)

lemma keys_required_append:
  assumes "distinct (map fst rest) \<and> fst ` set rest \<subseteq> S" and "k \<notin> S"
  shows "distinct (map fst (required v k m @ rest))
     \<and> fst ` set (required v k m @ rest) \<subseteq> insert k S"
  using assms by (auto simp: required_def)

lemma keys_two_rules_append:
  assumes "distinct (map fst rest) \<and> fst ` set rest \<subseteq> S" and "k \<notin> S"
  shows "distinct (map fst ((if c1 then [(k, m1)] else if c2 then [(k, m2)] else []) @ rest))"
  using assms by auto

lemma validateForm_keys: "distinct (map fst (errors (validateForm d)))"
  unfolding validateForm_def Let_def validation.simps
  by (rule keys_two_rules_append, (rule keys_required_append)+, rule keys_required) simp_all

text \<open>
  C6. \<^verbatim>\<open>validateForm\<close> is a total function of the ten field values, so it never
  throws. Its result is either valid with no errors or invalid with at least one; each
  field has at most one entry; a field that is empty after trimming has its "required"
  entry; the email has the format entry only when it is not empty; and the entry of a
  field is decided by that field alone, whatever the other fields hold.
\<close>

theorem validateForm_result:
  "((isValid (validateForm d) \<and> errors (validateForm d) = [])
      \<or> (\<not> isValid (validateForm d) \<and> errors (validateForm d) \<noteq> []))
   \<and> distinct (map fst (errors (validateForm d)))
   \<and> (\<forall>k. map_of (errors (validateForm d)) k =
        (if k = ''guestEmail'' \<and> trim (guestEmail d) = [] then Some ''Email is required''
         else if k = ''guestEmail'' \<and> \<not> isValidEmail (guestEmail d)
           then Some ''Please enter a valid email address''
         else if k = ''firstname'' \<and> trim (firstname d) = [] then Some ''First name is required''
         else if k = ''lastname'' \<and> trim (lastname d) = [] then Some ''Last name is required''
         else if k = ''company'' \<and> trim (company d) = [] then Some ''Company name is required''
         else if k = ''street'' \<and> trim (street d) = [] then Some ''Street address is required''
         else if k = ''city'' \<and> trim (city d) = [] then Some ''City is required''
         else if k = ''region'' \<and> trim (region d) = [] then Some ''State/Region is required''
         else if k = ''postcode'' \<and> trim (postcode d) = [] then Some ''Postal code is required''
         else if k = ''country_code'' \<and> trim (country_code d) = [] then Some ''Country is required''
         else if k = ''telephone'' \<and> trim (telephone d) = [] then Some ''Phone number is required''
         else None))"
proof (intro conjI allI)
  show "(isValid (validateForm d) \<and> errors (validateForm d) = [])
      \<or> (\<not> isValid (validateForm d) \<and> errors (validateForm d) \<noteq> [])"
    by (simp add: validateForm_def Let_def)
  show "distinct (map fst (errors (validateForm d)))"
    by (rule validateForm_keys)
  fix k
  show "map_of (errors (validateForm d)) k =
        (if k = ''guestEmail'' \<and> trim (guestEmail d) = [] then Some ''Email is required''
         else if k = ''guestEmail'' \<and> \<not> isValidEmail (guestEmail d)
           then Some ''Please enter a valid email address''
         else if k = ''firstname'' \<and> trim (firstname d) = [] then Some ''First name is required''
         else if k = ''lastname'' \<and> trim (lastname d) = [] then Some ''Last name is required''
         else if k = ''company'' \<and> trim (company d) = [] then Some ''Company name is required''
         else if k = ''street'' \<and> trim (street d) = [] then Some ''Street address is required''
         else if k = ''city'' \<and> trim (city d) = [] then Some ''City is required''
         else if k = ''region'' \<and> trim (region d) = [] then Some ''State/Region is required''
         else if k = ''postcode'' \<and> trim (postcode d) = [] then Some ''Postal code is required''
         else if k = ''country_code'' \<and> trim (country_code d) = [] then Some ''Country is required''
         else if k = ''telephone'' \<and> trim (telephone d) = [] then Some ''Phone number is required''
         else None)"
    unfolding validateForm_def Let_def validation.simps
    by (simp only: map_of_two_rules_append map_of_required_append map_of_required empty_or_blank)
qed

theorem validateForm_result_witness:
  "\<not> isValid (validateForm (demo_data\<lparr>guestEmail := ''ann@example'', city := ''  ''\<rparr>))
   \<and> map_of (errors (validateForm (demo_data\<lparr>guestEmail := ''ann@example'', city := ''  ''\<rparr>)))
        ''guestEmail'' = Some ''Please enter a valid email address''
   \<and> map_of (errors (validateForm (demo_data\<lparr>guestEmail := ''ann@example'', city := ''  ''\<rparr>)))
        ''city'' = Some ''City is required''
   \<and> map_of (errors (validateForm (demo_data\<lparr>guestEmail := ''ann@example'', city := ''  ''\<rparr>)))
        ''street'' = None"
proof -
  let ?d = "demo_data\<lparr>guestEmail := ''ann@example'', city := ''  ''\<rparr>"
  have email: "trim (guestEmail ?d) \<noteq> []" "\<not> isValidEmail (guestEmail ?d)"
    by (simp_all add: demo_data_def) code_simp+
  have fields: "trim (city ?d) = []" "trim (street ?d) \<noteq> []"
    by (simp_all add: demo_data_def) code_simp+
  note result = validateForm_result [of ?d]
  note entry = result [THEN conjunct2, THEN conjunct2, THEN spec]
  have e1: "map_of (errors (validateForm ?d)) ''guestEmail''
      = Some ''Please enter a valid email address''"
    unfolding entry [of "''guestEmail''"] using email by simp
  have e2: "map_of (errors (validateForm ?d)) ''city'' = Some ''City is required''"
    unfolding entry [of "''city''"] using fields by simp
  have e3: "map_of (errors (validateForm ?d)) ''street'' = None"
    unfolding entry [of "''street''"] using fields by simp
  from e2 have "errors (validateForm ?d) \<noteq> []" by auto
  with result have "\<not> isValid (validateForm ?d)" by blast
  with e1 e2 e3 show ?thesis by (intro conjI)
qed

section \<open>Properties of the payment gateway adapter\<close>

lemma demo_BASE_URL: "BASE_URL (demo_platform server) = ''https://api.example''"
  by (simp add: BASE_URL_def demo_platform_def)

lemma demo_fetch:
  "fetch (demo_platform server) url body =
     (case map_of server url of
        Some r \<Rightarrow> r
      | None \<Rightarrow> Rejected (JsError ''TypeError'' ''Failed to fetch''))"
  by (simp add: demo_platform_def)

lemma demo_JSON_parse: "JSON_parse (demo_platform server) = demo_parse"
  by (simp add: demo_platform_def)











section \<open>Properties of the return handler\<close>

lemma steps_not_settled:
  assumes "\<forall>r. capturePayPalOrder w token = Inr r \<longrightarrow> oprop r ''status'' \<noteq> JStr ''SUCCESS''"
  shows "\<exists>e. paypal_return_steps w token page = (Inl e, page, [CapturePayPalOrder token])"
  using assms by (auto simp: paypal_return_steps_def split: sum.splits)

lemma steps_no_cart:
  assumes "getCartId (localStorage page) = None"
  shows "\<exists>e. paypal_return_steps w token page = (Inl e, page, [CapturePayPalOrder token])"
  using assms by (auto simp: paypal_return_steps_def split: sum.splits)

lemma steps_settled_no_cart:
  assumes "getCartId (localStorage page) = None"
    and "capturePayPalOrder w token = Inr r" and "oprop r ''status'' = JStr ''SUCCESS''"
  shows "paypal_return_steps w token page =
     (Inl (JsError ''Error'' ''Cart not found''), page, [CapturePayPalOrder token])"
proof -
  from assms(3) have "truthy r" by (cases r) auto
  with assms show ?thesis by (simp add: paypal_return_steps_def)
qed


lemma loadCart_no_cart_id:
  "getCartId (localStorage page) = None \<Longrightarrow> loadCart w page = (show_empty page, [])"
  by (simp add: loadCart_def)

lemma demo_getCartId: "getCartId (demo_storage c) = c"
  by (simp add: getCartId_def getItem_def demo_storage_def CART_ID_STORAGE_KEY_def)

lemma demo_page_token: "search_token (window_location (demo_page token c)) = token"
  by (simp add: demo_page_def initial_page_def demo_location_def)

lemma demo_page_cart: "getCartId (localStorage (demo_page token c)) = c"
  by (simp add: demo_page_def initial_page_def demo_getCartId)

lemma demo_capture:
  assumes "map_of demo_texts capture_text = Some v" and "truthy v"
  shows "capturePayPalOrder (demo_platform (resume_server capture_text order_text)) token = Inr v"
  using assms
  by (simp add: capturePayPalOrder_def post_json_def demo_BASE_URL demo_fetch resume_server_def
      json_response_def demo_JSON_parse demo_parse_def js_or_def)


lemma text_success:
  \<open>map_of demo_texts ''{"status":"SUCCESS"}'' = Some (JObj [(''status'', JStr ''SUCCESS'')])\<close>
  by (simp add: demo_texts_def)

lemma text_failed:
  \<open>map_of demo_texts ''{"status":"FAILED"}'' = Some (JObj [(''status'', JStr ''FAILED'')])\<close>
  by (simp add: demo_texts_def)




text \<open>
  C2. On the resume path, when the capture call gives no response whose status is
  \<^verbatim>\<open>'SUCCESS'\<close>, the handler makes the capture call and no other: it never calls
  \<^verbatim>\<open>placeOrder\<close>, returns false and shows the payment error.
\<close>

theorem not_settled_never_places_order:
  assumes "search_token (window_location page) = Some token" and "token \<noteq> []"
    and "\<forall>r. capturePayPalOrder w token = Inr r \<longrightarrow> oprop r ''status'' \<noteq> JStr ''SUCCESS''"
  shows "case handlePayPalReturn w page of
           (success, page', calls) \<Rightarrow>
             \<not> success \<and> calls = [CapturePayPalOrder token] \<and> (\<forall>c. PlaceOrder c \<notin> set calls)
             \<and> is_error_view (empty_innerHTML page')"
proof -
  from steps_not_settled [OF assms(3)] obtain e where
    "paypal_return_steps w token
       (page\<lparr>wrapper_display := ''none'', empty_display := ''block'',
              empty_innerHTML := ProcessingPaymentView\<rparr>)
     = (Inl e, page\<lparr>wrapper_display := ''none'', empty_display := ''block'',
              empty_innerHTML := ProcessingPaymentView\<rparr>, [CapturePayPalOrder token])"
    by blast
  with assms(1,2) show ?thesis by (simp add: handlePayPalReturn_def return_failed_def)
qed

theorem not_settled_never_places_order_witness:
  \<open>fst (handlePayPalReturn (demo_platform (resume_server ''{"status":"FAILED"}'' ''{}''))
          (demo_page (Some ''EC-123'') (Some ''cart-1''))) = False
   \<and> snd (snd (handlePayPalReturn (demo_platform (resume_server ''{"status":"FAILED"}'' ''{}''))
          (demo_page (Some ''EC-123'') (Some ''cart-1'')))) = [CapturePayPalOrder ''EC-123'']
   \<and> is_error_view (empty_innerHTML (fst (snd (handlePayPalReturn
          (demo_platform (resume_server ''{"status":"FAILED"}'' ''{}''))
          (demo_page (Some ''EC-123'') (Some ''cart-1''))))))\<close>
proof -
  let ?w = \<open>demo_platform (resume_server ''{"status":"FAILED"}'' ''{}'')\<close>
  let ?p = "demo_page (Some ''EC-123'') (Some ''cart-1'')"
  have capture: "capturePayPalOrder ?w ''EC-123'' = Inr (JObj [(''status'', JStr ''FAILED'')])"
    by (rule demo_capture [OF text_failed]) simp
  have not_settled:
    "\<forall>r. capturePayPalOrder ?w ''EC-123'' = Inr r \<longrightarrow> oprop r ''status'' \<noteq> JStr ''SUCCESS''"
    unfolding capture by simp
  have token: "search_token (window_location ?p) = Some ''EC-123''"
    by (rule demo_page_token)
  have nonempty: "''EC-123'' \<noteq> []" by simp
  note result = not_settled_never_places_order [OF token nonempty not_settled]
  then show ?thesis by (simp add: case_prod_unfold)
qed

text \<open>
  C1 (amended). On the resume path with a token and no cart identifier in the session
  store, the handler still makes the capture call, once and before it reads the cart
  identifier; it never calls \<^verbatim>\<open>placeOrder\<close>, returns false and shows the payment
  error, not the success view. After a settled capture the error is "Cart not found".
\<close>

theorem resume_without_cart_id:
  assumes "search_token (window_location page) = Some token" and "token \<noteq> []"
    and "getCartId (localStorage page) = None"
  shows "case handlePayPalReturn w page of
           (success, page', calls) \<Rightarrow>
             \<not> success \<and> calls = [CapturePayPalOrder token]
             \<and> is_error_view (empty_innerHTML page')
             \<and> (\<forall>r. capturePayPalOrder w token = Inr r \<and> oprop r ''status'' = JStr ''SUCCESS''
                   \<longrightarrow> empty_innerHTML page' = PaymentErrorView ''Cart not found'')"
proof -
  let ?processing = "page\<lparr>wrapper_display := ''none'', empty_display := ''block'',
              empty_innerHTML := ProcessingPaymentView\<rparr>"
  have c0: "getCartId (localStorage ?processing) = None" using assms(3) by simp
  from steps_no_cart [OF c0] obtain e where
    e: "paypal_return_steps w token ?processing = (Inl e, ?processing, [CapturePayPalOrder token])"
    by blast
  have "e = JsError ''Error'' ''Cart not found''"
    if "capturePayPalOrder w token = Inr r" "oprop r ''status'' = JStr ''SUCCESS''" for r
    using steps_settled_no_cart [OF c0 that] e by simp
  with e assms(1,2) show ?thesis by (auto simp: handlePayPalReturn_def return_failed_def)
qed

theorem resume_without_cart_id_witness:
  \<open>fst (handlePayPalReturn (demo_platform (resume_server ''{"status":"SUCCESS"}'' ''{}''))
          (demo_page (Some ''EC-456'') None)) = False
   \<and> snd (snd (handlePayPalReturn (demo_platform (resume_server ''{"status":"SUCCESS"}'' ''{}''))
          (demo_page (Some ''EC-456'') None))) = [CapturePayPalOrder ''EC-456'']
   \<and> is_error_view (empty_innerHTML (fst (snd (handlePayPalReturn
          (demo_platform (resume_server ''{"status":"SUCCESS"}'' ''{}''))
          (demo_page (Some ''EC-456'') None)))))\<close>
proof -
  let ?w = \<open>demo_platform (resume_server ''{"status":"SUCCESS"}'' ''{}'')\<close>
  let ?p = "demo_page (Some ''EC-456'') None"
  have token: "search_token (window_location ?p) = Some ''EC-456''"
    by (rule demo_page_token)
  have nonempty: "''EC-456'' \<noteq> []" by simp
  have cart: "getCartId (localStorage ?p) = None"
    by (rule demo_page_cart)
  note result = resume_without_cart_id [OF token nonempty cart, of ?w]
  then show ?thesis by (simp add: case_prod_unfold)
qed

text \<open>
  C1 as stated fails: with the token \<^verbatim>\<open>EC-123\<close>, no cart identifier in the store and
  a capture that settles, the handler calls \<^verbatim>\<open>capturePayPalOrder\<close> and ends in the
  error view with "Cart not found".
\<close>

theorem resume_without_cart_id_counterexample:
  \<open>fst (handlePayPalReturn (demo_platform (resume_server ''{"status":"SUCCESS"}'' ''{}''))
          (demo_page (Some ''EC-123'') None)) = False
   \<and> snd (snd (handlePayPalReturn (demo_platform (resume_server ''{"status":"SUCCESS"}'' ''{}''))
          (demo_page (Some ''EC-123'') None))) = [CapturePayPalOrder ''EC-123'']
   \<and> empty_innerHTML (fst (snd (handlePayPalReturn
          (demo_platform (resume_server ''{"status":"SUCCESS"}'' ''{}''))
          (demo_page (Some ''EC-123'') None)))) = PaymentErrorView ''Cart not found''\<close>
proof -
  let ?w = \<open>demo_platform (resume_server ''{"status":"SUCCESS"}'' ''{}'')\<close>
  let ?p = "demo_page (Some ''EC-123'') None"
  let ?processing = "?p\<lparr>wrapper_display := ''none'', empty_display := ''block'',
      empty_innerHTML := ProcessingPaymentView\<rparr>"
  have capture: "capturePayPalOrder ?w ''EC-123'' = Inr (JObj [(''status'', JStr ''SUCCESS'')])"
    by (rule demo_capture [OF text_success]) simp
  have cart: "getCartId (localStorage ?processing) = None"
    by (simp add: demo_page_cart)
  have settled: "oprop (JObj [(''status'', JStr ''SUCCESS'')]) ''status'' = JStr ''SUCCESS''"
    by simp
  note steps = steps_settled_no_cart [OF cart capture settled]
  have "handlePayPalReturn ?w ?p =
      (False, ?processing\<lparr>empty_innerHTML := PaymentErrorView ''Cart not found''\<rparr>,
       [CapturePayPalOrder ''EC-123''])"
    by (simp add: handlePayPalReturn_def return_failed_def demo_page_token steps)
  then show ?thesis by simp
qed




text \<open>
  C4. When the page is entered with a resume token and the session store holds no cart
  identifier, the only call made is the capture: no cart is fetched, no order is placed,
  the payment error is on display in place of the form, no cart is loaded and the store
  still holds no cart identifier.
\<close>

theorem missing_cart_id_on_resume_is_fatal:
  assumes "search_token loc = Some token" and "token \<noteq> []" and "getCartId st = None"
  shows "case decorate w loc st of
           (page', calls) \<Rightarrow>
             calls = [CapturePayPalOrder token]
             \<and> is_error_view (empty_innerHTML page')
             \<and> empty_display page' = ''block'' \<and> wrapper_display page' = ''none''
             \<and> currentCartData page' = None
             \<and> getCartId (localStorage page') = None"
proof -
  let ?start = "initial_page loc st"
  let ?processing = "?start\<lparr>wrapper_display := ''none'', empty_display := ''block'',
              empty_innerHTML := ProcessingPaymentView\<rparr>"
  have c0: "getCartId (localStorage ?processing) = None" using assms(3) by (simp add: initial_page_def)
  from steps_no_cart [OF c0] obtain e where
    e: "paypal_return_steps w token ?processing = (Inl e, ?processing, [CapturePayPalOrder token])"
    by blast
  have t: "search_token (window_location ?start) = Some token" using assms(1) by (simp add: initial_page_def)
  have h: "handlePayPalReturn w ?start = (False, ?processing\<lparr>empty_innerHTML := PaymentErrorView
                       (if err_message e \<noteq> [] then err_message e
                        else ''An error occurred while processing your payment. Please try again.'')\<rparr>, [CapturePayPalOrder token])"
    using e t assms(2) by (simp add: handlePayPalReturn_def return_failed_def)
  let ?failed = "?processing\<lparr>empty_innerHTML := PaymentErrorView
                       (if err_message e \<noteq> [] then err_message e
                        else ''An error occurred while processing your payment. Please try again.'')\<rparr>"
  have c1: "getCartId (localStorage ?failed) = None" using c0 by simp
  have d: "decorate w loc st = (show_empty ?failed, [CapturePayPalOrder token])"
    using assms(1,2) h loadCart_no_cart_id [OF c1, of w] by (simp add: decorate_def)
  show ?thesis
    unfolding d using assms(3) by (simp add: show_empty_def initial_page_def)
qed


theorem missing_cart_id_on_resume_is_fatal_witness:
  \<open>snd (decorate (demo_platform (resume_server ''{"status":"SUCCESS"}'' ''{}''))
          (demo_location (Some ''EC-123'')) (demo_storage None)) = [CapturePayPalOrder ''EC-123'']
   \<and> is_error_view (empty_innerHTML (fst (decorate
          (demo_platform (resume_server ''{"status":"SUCCESS"}'' ''{}''))
          (demo_location (Some ''EC-123'')) (demo_storage None))))
   \<and> currentCartData (fst (decorate
          (demo_platform (resume_server ''{"status":"SUCCESS"}'' ''{}''))
          (demo_location (Some ''EC-123'')) (demo_storage None))) = None\<close>
proof -
  let ?w = \<open>demo_platform (resume_server ''{"status":"SUCCESS"}'' ''{}'')\<close>
  have token: "search_token (demo_location (Some ''EC-123'')) = Some ''EC-123''"
    by (simp add: demo_location_def)
  have nonempty: "''EC-123'' \<noteq> []" by simp
  have cart: "getCartId (demo_storage None) = None"
    by (rule demo_getCartId)
  note result = missing_cart_id_on_resume_is_fatal [OF token nonempty cart, of ?w]
  then show ?thesis by (simp add: case_prod_unfold)
qed

section \<open>Properties of the submit handler\<close>

lemma place_order_steps_prepare_threw:
  "prepareCheckout w request = Inl e
    \<Longrightarrow> place_order_steps w request page = (Inl e, [PrepareCheckout request])"
  by (simp add: place_order_steps_def)

lemma place_order_steps_prepare_empty:
  "prepareCheckout w request = Inr v \<Longrightarrow> \<not> truthy v
    \<Longrightarrow> place_order_steps w request page =
          (Inl (JsError ''Error'' ''Failed to prepare checkout''), [PrepareCheckout request])"
  by (simp add: place_order_steps_def)

lemma place_order_steps_create:
  assumes "prepareCheckout w request = Inr v" and "truthy v"
    and "currentCartData page = Some cart"
  shows "place_order_steps w request page =
     (case createPayPalOrder w (window_location page)
             (cartId_value (getCartId (localStorage page)))
             (JObj [(''value'', money_value (grandTotal (prices cart))),
                    (''currency_code'', currency (grandTotal (prices cart)))]) (JArr []) of
        Inl error \<Rightarrow> Inl error
      | Inr paypalResult \<Rightarrow>
          if \<not> truthy paypalResult \<or> \<not> truthy (oprop paypalResult ''approvalUrl'')
          then Inl (JsError ''Error'' ''Failed to create PayPal order'')
          else Inr (oprop paypalResult ''approvalUrl''),
      [PrepareCheckout request,
       CreatePayPalOrder (cartId_value (getCartId (localStorage page)))
         (JObj [(''value'', money_value (grandTotal (prices cart))),
                (''currency_code'', currency (grandTotal (prices cart)))]) (JArr [])])"
  using assms by (simp add: place_order_steps_def Let_def split: sum.splits)


text \<open>What \<^verbatim>\<open>handlePlaceOrder\<close> does once the cart identifier and the form are accepted.\<close>

lemma handlePlaceOrder_submitted:
  assumes "getCartId (localStorage page) = Some cartId" and "cartId \<noteq> []"
    and "isValid (validateForm (trimmed form))"
  shows "handlePlaceOrder w form page =
     (let page2 = page\<lparr>localStorage := saveAddress w (addressToSave (trimmed form)) (localStorage page),
                       placeOrderBtn_disabled := True, placeOrderBtn_text := PlacingOrderText\<rparr>
      in case place_order_steps w (checkoutData cartId (trimmed form)) page2 of
           (Inr approvalUrl, calls) \<Rightarrow>
             (case toStr (exponent_form w) approvalUrl of
                Inl error \<Rightarrow>
                  (submit_failed error
                     (showNotification ''Redirecting to PayPal...'' ''info'' page2), calls)
              | Inr href \<Rightarrow>
                  (case assign_href w href of
                     Some error \<Rightarrow>
                       (submit_failed error
                          (showNotification ''Redirecting to PayPal...'' ''info'' page2), calls)
                   | None \<Rightarrow>
                       ((showNotification ''Redirecting to PayPal...'' ''info'' page2)
                          \<lparr>location_href := Some href\<rparr>, calls)))
         | (Inl error, calls) \<Rightarrow> (submit_failed error page2, calls))"
  unfolding handlePlaceOrder_def Let_def using assms by simp

lemma transform_demo_cart: "transformCartData demo_cart_json = Inr (Some demo_cart)"
  by (simp add: transformCartData_def demo_cart_json_def demo_cart_def js_or_def transform_item_def
      get_prop_def transform_money_def)

lemma demo_valid: "isValid (validateForm (trimmed demo_data))"
  by code_simp



lemma submit_page_cart: "getCartId (localStorage submit_page) = Some ''cart-1''"
  by (simp add: submit_page_def demo_page_def initial_page_def getCartId_def getItem_def
      demo_storage_def CART_ID_STORAGE_KEY_def)

lemma demo_prepare_refused:
  \<open>prepareCheckout (demo_platform
       [(''https://api.example/poc-appbuilder-storefront/checkout-prepare'',
         error_response 400 ''Bad Request'' ''{"message":"Cart is not shippable"}'')]) request
     = Inl (JsError ''Error'' ''Cart is not shippable'')\<close>
  by (simp add: prepareCheckout_def post_json_def demo_BASE_URL demo_fetch error_response_def
      failure_message_def demo_JSON_parse demo_parse_def demo_texts_def js_or_def)

lemma demo_prepare_accepted:
  \<open>prepareCheckout (demo_platform
       [(''https://api.example/poc-appbuilder-storefront/checkout-prepare'',
         json_response ''{"cart":{}}'')]) request
     = Inr (JObj [])\<close>
  by (simp add: prepareCheckout_def post_json_def demo_BASE_URL demo_fetch json_response_def
      demo_JSON_parse demo_parse_def demo_texts_def js_or_def)

lemma demo_create_unreachable:
  \<open>createPayPalOrder (demo_platform
       [(''https://api.example/poc-appbuilder-storefront/checkout-prepare'',
         json_response ''{"cart":{}}'')]) loc cartId amount items
     = Inl (JsError ''TypeError'' ''Failed to fetch'')\<close>
  by (simp add: createPayPalOrder_def post_json_def demo_BASE_URL demo_fetch)

text \<open>
  C5. With a cart identifier in the store and a valid form, \<^verbatim>\<open>handlePlaceOrder\<close>
  calls \<^verbatim>\<open>prepareCheckout\<close> first and \<^verbatim>\<open>createPayPalOrder\<close> second. When
  \<^verbatim>\<open>prepareCheckout\<close> throws or returns nothing, it is the only call made; when
  \<^verbatim>\<open>createPayPalOrder\<close> throws or returns no approval URL, no call follows it. In
  each of these cases the button is enabled again with its label, the notification is an
  error with the failure's message, and no redirect is issued.
\<close>

theorem submit_failure_stops_the_attempt:
  assumes "getCartId (localStorage page) = Some cartId" and "cartId \<noteq> []"
    and "isValid (validateForm (trimmed form))"
  shows "case handlePlaceOrder w form page of
           (page', calls) \<Rightarrow>
             (\<forall>e. prepareCheckout w (checkoutData cartId (trimmed form)) = Inl e \<longrightarrow>
                calls = [PrepareCheckout (checkoutData cartId (trimmed form))]
                \<and> \<not> placeOrderBtn_disabled page' \<and> placeOrderBtn_text page' = PlaceOrderText
                \<and> currentNotification page' =
                    Some (if err_message e \<noteq> [] then err_message e else ''Failed to place order'',
                          ''error'')
                \<and> location_href page' = location_href page)
             \<and> (\<forall>v. prepareCheckout w (checkoutData cartId (trimmed form)) = Inr v \<and> \<not> truthy v \<longrightarrow>
                calls = [PrepareCheckout (checkoutData cartId (trimmed form))]
                \<and> \<not> placeOrderBtn_disabled page' \<and> placeOrderBtn_text page' = PlaceOrderText
                \<and> currentNotification page' = Some (''Failed to prepare checkout'', ''error'')
                \<and> location_href page' = location_href page)
             \<and> (\<forall>v cart. prepareCheckout w (checkoutData cartId (trimmed form)) = Inr v \<and> truthy v
                  \<and> currentCartData page = Some cart \<longrightarrow>
                calls = [PrepareCheckout (checkoutData cartId (trimmed form)),
                         CreatePayPalOrder (JStr cartId)
                           (JObj [(''value'', money_value (grandTotal (prices cart))),
                                  (''currency_code'', currency (grandTotal (prices cart)))])
                           (JArr [])]
                \<and> (case createPayPalOrder w (window_location page) (JStr cartId)
                           (JObj [(''value'', money_value (grandTotal (prices cart))),
                                  (''currency_code'', currency (grandTotal (prices cart)))])
                           (JArr []) of
                      Inl e \<Rightarrow>
                        \<not> placeOrderBtn_disabled page' \<and> placeOrderBtn_text page' = PlaceOrderText
                        \<and> currentNotification page' =
                            Some (if err_message e \<noteq> [] then err_message e
                                  else ''Failed to place order'', ''error'')
                        \<and> location_href page' = location_href page
                    | Inr paypalResult \<Rightarrow>
                        if truthy paypalResult \<and> truthy (oprop paypalResult ''approvalUrl'')
                        then
                          (case (case toStr (exponent_form w)
                                        (oprop paypalResult ''approvalUrl'') of
                                   Inl e \<Rightarrow> Inl e
                                 | Inr href \<Rightarrow>
                                     (case assign_href w href of
                                        Some e \<Rightarrow> Inl e | None \<Rightarrow> Inr href)) of
                             Inr href \<Rightarrow> location_href page' = Some href
                           | Inl e \<Rightarrow>
                               \<not> placeOrderBtn_disabled page'
                               \<and> placeOrderBtn_text page' = PlaceOrderText
                               \<and> currentNotification page' =
                                   Some (if err_message e \<noteq> [] then err_message e
                                         else ''Failed to place order'', ''error'')
                               \<and> location_href page' = location_href page)
                        else \<not> placeOrderBtn_disabled page'
                          \<and> placeOrderBtn_text page' = PlaceOrderText
                          \<and> currentNotification page' =
                              Some (''Failed to create PayPal order'', ''error'')
                          \<and> location_href page' = location_href page))"
proof -
  let ?request = "checkoutData cartId (trimmed form)"
  let ?page2 = "page\<lparr>localStorage := saveAddress w (addressToSave (trimmed form)) (localStorage page),
                       placeOrderBtn_disabled := True, placeOrderBtn_text := PlacingOrderText\<rparr>"
  note h = handlePlaceOrder_submitted [OF assms, of w]
  have threw: "prepareCheckout w ?request = Inl e \<Longrightarrow>
      handlePlaceOrder w form page =
        ((showNotification (if err_message e \<noteq> [] then err_message e else ''Failed to place order'')
            ''error'' ?page2)
           \<lparr>placeOrderBtn_disabled := False, placeOrderBtn_text := PlaceOrderText\<rparr>,
         [PrepareCheckout ?request])" for e
    unfolding h Let_def by (simp add: place_order_steps_prepare_threw submit_failed_def)
  have empty: "prepareCheckout w ?request = Inr v \<Longrightarrow> \<not> truthy v \<Longrightarrow>
      handlePlaceOrder w form page =
        ((showNotification ''Failed to prepare checkout'' ''error'' ?page2)
           \<lparr>placeOrderBtn_disabled := False, placeOrderBtn_text := PlaceOrderText\<rparr>,
         [PrepareCheckout ?request])" for v
    unfolding h Let_def by (simp add: place_order_steps_prepare_empty submit_failed_def)
  have cart2: "getCartId (localStorage ?page2) = Some cartId"
    using assms(1) by (simp add: getCartId_saveAddress)
  have create: "prepareCheckout w ?request = Inr v \<Longrightarrow> truthy v \<Longrightarrow>
      currentCartData page = Some cart \<Longrightarrow>
      place_order_steps w ?request ?page2 =
       (case createPayPalOrder w (window_location page) (JStr cartId)
             (JObj [(''value'', money_value (grandTotal (prices cart))),
                    (''currency_code'', currency (grandTotal (prices cart)))]) (JArr []) of
        Inl error \<Rightarrow> Inl error
      | Inr paypalResult \<Rightarrow>
          if \<not> truthy paypalResult \<or> \<not> truthy (oprop paypalResult ''approvalUrl'')
          then Inl (JsError ''Error'' ''Failed to create PayPal order'')
          else Inr (oprop paypalResult ''approvalUrl''),
      [PrepareCheckout ?request,
       CreatePayPalOrder (JStr cartId)
         (JObj [(''value'', money_value (grandTotal (prices cart))),
                (''currency_code'', currency (grandTotal (prices cart)))]) (JArr [])])" for v cart
    using place_order_steps_create [of w ?request v ?page2 cart] cart2
    by (simp add: cartId_value_def)
  show ?thesis
    apply (simp only: case_prod_unfold)
    apply (intro conjI allI impI)
    subgoal for e by (simp add: threw showNotification_def)
    subgoal for e by (simp add: threw showNotification_def)
    subgoal for e by (simp add: threw showNotification_def)
    subgoal for e by (simp add: threw showNotification_def)
    subgoal for e by (simp add: threw showNotification_def)
    subgoal for v by (simp add: empty showNotification_def)
    subgoal for v by (simp add: empty showNotification_def)
    subgoal for v by (simp add: empty showNotification_def)
    subgoal for v by (simp add: empty showNotification_def)
    subgoal for v by (simp add: empty showNotification_def)
    subgoal for v cart unfolding h Let_def by (simp add: create split: sum.splits option.splits)
    subgoal for v cart unfolding h Let_def
      by (auto simp add: create showNotification_def submit_failed_def
          split: sum.splits option.splits)
    done
qed


theorem submit_failure_stops_the_attempt_witness:
  \<open>snd (handlePlaceOrder (demo_platform
       [(''https://api.example/poc-appbuilder-storefront/checkout-prepare'',
         error_response 400 ''Bad Request'' ''{"message":"Cart is not shippable"}'')])
       demo_data submit_page)
     = [PrepareCheckout (checkoutData ''cart-1'' (trimmed demo_data))]
   \<and> placeOrderBtn_disabled (fst (handlePlaceOrder (demo_platform
       [(''https://api.example/poc-appbuilder-storefront/checkout-prepare'',
         error_response 400 ''Bad Request'' ''{"message":"Cart is not shippable"}'')])
       demo_data submit_page)) = False
   \<and> currentNotification (fst (handlePlaceOrder (demo_platform
       [(''https://api.example/poc-appbuilder-storefront/checkout-prepare'',
         error_response 400 ''Bad Request'' ''{"message":"Cart is not shippable"}'')])
       demo_data submit_page)) = Some (''Cart is not shippable'', ''error'')
   \<and> snd (handlePlaceOrder (demo_platform
       [(''https://api.example/poc-appbuilder-storefront/checkout-prepare'',
         json_response ''{"cart":{}}'')]) demo_data submit_page)
     = [PrepareCheckout (checkoutData ''cart-1'' (trimmed demo_data)),
        CreatePayPalOrder (JStr ''cart-1'')
          (JObj [(''value'', JNum 50), (''currency_code'', JStr ''USD'')]) (JArr [])]
   \<and> placeOrderBtn_disabled (fst (handlePlaceOrder (demo_platform
       [(''https://api.example/poc-appbuilder-storefront/checkout-prepare'',
         json_response ''{"cart":{}}'')]) demo_data submit_page)) = False
   \<and> currentNotification (fst (handlePlaceOrder (demo_platform
       [(''https://api.example/poc-appbuilder-storefront/checkout-prepare'',
         json_response ''{"cart":{}}'')]) demo_data submit_page))
     = Some (''Failed to fetch'', ''error'')\<close>
proof -
  let ?refusing = \<open>demo_platform
       [(''https://api.example/poc-appbuilder-storefront/checkout-prepare'',
         error_response 400 ''Bad Request'' ''{"message":"Cart is not shippable"}'')]\<close>
  let ?accepting = \<open>demo_platform
       [(''https://api.example/poc-appbuilder-storefront/checkout-prepare'',
         json_response ''{"cart":{}}'')]\<close>
  have nonempty: "''cart-1'' \<noteq> []" by simp
  note refused = submit_failure_stops_the_attempt
    [OF submit_page_cart nonempty demo_valid, of ?refusing]
  note accepted = submit_failure_stops_the_attempt
    [OF submit_page_cart nonempty demo_valid, of ?accepting]
  have cart: "currentCartData submit_page = Some demo_cart"
    by (simp add: submit_page_def)
  have amount: "money_value (grandTotal (prices demo_cart)) = JNum 50"
    "currency (grandTotal (prices demo_cart)) = JStr ''USD''"
    by (simp_all add: demo_cart_def)
  have a: "snd (handlePlaceOrder ?refusing demo_data submit_page)
       = [PrepareCheckout (checkoutData ''cart-1'' (trimmed demo_data))]
     \<and> placeOrderBtn_disabled (fst (handlePlaceOrder ?refusing demo_data submit_page)) = False
     \<and> currentNotification (fst (handlePlaceOrder ?refusing demo_data submit_page))
         = Some (''Cart is not shippable'', ''error'')"
    using refused demo_prepare_refused [of "checkoutData ''cart-1'' (trimmed demo_data)"]
    by (simp add: case_prod_unfold)
  have b: "snd (handlePlaceOrder ?accepting demo_data submit_page)
       = [PrepareCheckout (checkoutData ''cart-1'' (trimmed demo_data)),
          CreatePayPalOrder (JStr ''cart-1'')
            (JObj [(''value'', JNum 50), (''currency_code'', JStr ''USD'')]) (JArr [])]
     \<and> placeOrderBtn_disabled (fst (handlePlaceOrder ?accepting demo_data submit_page)) = False
     \<and> currentNotification (fst (handlePlaceOrder ?accepting demo_data submit_page))
         = Some (''Failed to fetch'', ''error'')"
    using accepted demo_prepare_accepted [of "checkoutData ''cart-1'' (trimmed demo_data)"]
      cart amount
    by (simp add: case_prod_unfold demo_create_unreachable)
  from a b show ?thesis by simp
qed




section \<open>Properties of the cart load\<close>







end
